theory Spec2Isabelle
  imports Main "HOL-Library.Sublist"
begin

section \<open>Strings\<close>

text \<open>
  A Python \<open>str\<close> is modelled as a \<open>string\<close>, one \<open>char\<close> per character. The model
  is of ASCII text. The case mappings \<open>str.lower\<close> and \<open>str.upper\<close> are modelled on
  the ASCII letters and leave every other character as it is; whitespace is what
  \<open>str.isspace\<close> accepts among the ASCII characters (codes 9 to 13, 28 to 31 and 32);
  \<open>urllib.parse.quote\<close> writes one escape per character. On a string with a character
  above code 127 Python can differ from these four: \<open>lower\<close> and \<open>upper\<close> also map
  accented letters, the codes 133 and 160 are whitespace too, and \<open>quote\<close> escapes
  the bytes of the UTF-8 encoding. The properties below on the filter hold for any case
  mapping, and the one on the fenced answer has its blanks among the ASCII ones.
\<close>

definition ascii_uppercase :: string where
  "ascii_uppercase = ''ABCDEFGHIJKLMNOPQRSTUVWXYZ''"

definition ascii_lowercase :: string where
  "ascii_lowercase = ''abcdefghijklmnopqrstuvwxyz''"

definition lower_char :: "char \<Rightarrow> char" where
  "lower_char c =
     (case map_of (zip ascii_uppercase ascii_lowercase) c of Some d \<Rightarrow> d | None \<Rightarrow> c)"

definition upper_char :: "char \<Rightarrow> char" where
  "upper_char c =
     (case map_of (zip ascii_lowercase ascii_uppercase) c of Some d \<Rightarrow> d | None \<Rightarrow> c)"

definition lower :: "string \<Rightarrow> string" where
  "lower s = map lower_char s"

definition upper :: "string \<Rightarrow> string" where
  "upper s = map upper_char s"

text \<open>\<open>s.startswith(p)\<close>.\<close>

fun startswith :: "string \<Rightarrow> string \<Rightarrow> bool" where
  "startswith s [] = True"
| "startswith [] (p # ps) = False"
| "startswith (c # cs) (p # ps) = (c = p \<and> startswith cs ps)"

text \<open>\<open>w in s\<close> on strings: \<open>w\<close> occurs in \<open>s\<close> as a contiguous piece.\<close>

fun contains :: "string \<Rightarrow> string \<Rightarrow> bool" where
  "contains [] w = (w = [])"
| "contains (c # cs) w = (startswith (c # cs) w \<or> contains cs w)"

text \<open>The ASCII characters that \<open>str.isspace\<close> and the pattern \<open>\s\<close> accept.\<close>

definition whitespace :: string where
  "whitespace = [CHR 0x09, CHR 0x0A, CHR 0x0B, CHR 0x0C, CHR 0x0D,
                 CHR 0x1C, CHR 0x1D, CHR 0x1E, CHR 0x1F, CHR 0x20]"

definition is_space :: "char \<Rightarrow> bool" where
  "is_space c = (c \<in> set whitespace)"

text \<open>\<open>s.strip()\<close>: whitespace removed at both ends.\<close>

definition strip :: "string \<Rightarrow> string" where
  "strip s = rev (dropWhile is_space (rev (dropWhile is_space s)))"

text \<open>\<open>sep.join(xs)\<close>.\<close>

fun join :: "string \<Rightarrow> string list \<Rightarrow> string" where
  "join sep [] = []"
| "join sep [x] = x"
| "join sep (x # y # ys) = x @ sep @ join sep (y # ys)"

text \<open>
  \<open>list(set(xs))\<close>: the distinct elements of \<open>xs\<close>. Python leaves their order
  unspecified; the model keeps one order, and the properties below speak of the set of
  elements only.
\<close>

definition list_set :: "'a list \<Rightarrow> 'a list" where
  "list_set xs = remdups xs"

text \<open>\<open>d.get(key, default)\<close> on a dictionary given as its list of items.\<close>

definition dict_get :: "('k \<times> 'v) list \<Rightarrow> 'k \<Rightarrow> 'v \<Rightarrow> 'v" where
  "dict_get d k dflt = (case map_of d k of None \<Rightarrow> dflt | Some v \<Rightarrow> v)"

text \<open>The truth value of an optional string: \<open>None\<close> and the empty string are false.\<close>

definition truthy :: "string option \<Rightarrow> bool" where
  "truthy v = (case v of None \<Rightarrow> False | Some s \<Rightarrow> s \<noteq> [])"

section \<open>Data model\<close>

text \<open>
  An exercise record of the catalog. Every key is read with \<open>ex.get(key)\<close> or
  \<open>ex.get(key, [])\<close>, so every field is optional: \<open>None\<close> is an absent key.
\<close>

record exercise =
  exerciseId :: "string option"
  name :: "string option"
  bodyParts :: "string list option"
  targetMuscles :: "string list option"
  secondaryMuscles :: "string list option"
  equipments :: "string list option"
  exerciseType :: "string option"
  imageUrl :: "string option"
  videoUrl :: "string option"

text \<open>The dictionary returned by \<open>parse_user_query\<close>.\<close>

record params =
  muscles :: "string list"
  body_parts :: "string list"
  difficulty :: "string option"
  equipment :: "string list"

text \<open>\<open>d.get(key, [])\<close> on a list-valued key.\<close>

definition get_list :: "'a list option \<Rightarrow> 'a list" where
  "get_list v = (case v of None \<Rightarrow> [] | Some xs \<Rightarrow> xs)"

section \<open>filter_exercises\<close>

definition matches_body_part :: "string list \<Rightarrow> exercise \<Rightarrow> bool" where
  "matches_body_part bps ex =
     list_ex (\<lambda>bp. upper bp \<in> set (map upper (get_list (bodyParts ex)))) bps"

definition matches_equipment :: "string list \<Rightarrow> exercise \<Rightarrow> bool" where
  "matches_equipment eqs ex =
     list_ex (\<lambda>eq. lower eq \<in> set (map lower (get_list (equipments ex)))) eqs"

text \<open>The body-part step: skipped when \<open>params["body_parts"]\<close> is empty.\<close>

definition body_part_step :: "params \<Rightarrow> exercise list \<Rightarrow> exercise list" where
  "body_part_step p filtered =
     (if body_parts p \<noteq> [] then filter (matches_body_part (body_parts p)) filtered
      else filtered)"

text \<open>
  The equipment step: skipped when \<open>params["equipment"]\<close> is empty, and applied only
  when at least 3 records match.
\<close>

definition equipment_filtered :: "params \<Rightarrow> exercise list \<Rightarrow> exercise list" where
  "equipment_filtered p filtered = filter (matches_equipment (equipment p)) filtered"

definition equipment_step :: "params \<Rightarrow> exercise list \<Rightarrow> exercise list" where
  "equipment_step p filtered =
     (if equipment p \<noteq> [] then
        (if length (equipment_filtered p filtered) \<ge> 3 then equipment_filtered p filtered
         else filtered)
      else filtered)"

definition filter_exercises :: "exercise list \<Rightarrow> params \<Rightarrow> exercise list" where
  "filter_exercises exercises p =
     (let filtered = exercises;
          filtered = body_part_step p filtered;
          filtered = equipment_step p filtered;
          filtered = (if length filtered < 3 then take 30 exercises else filtered)
      in take 30 filtered)"

section \<open>Constants\<close>

definition EXERCISE_VIDEO_CDN :: string where
  "EXERCISE_VIDEO_CDN = ''https://exercisedb.b-cdn.net/exercises-videos''"

definition EXERCISE_IMAGE_CDN :: string where
  "EXERCISE_IMAGE_CDN = ''https://exercisedb.b-cdn.net/exercises-thumbnails''"

definition ALL_MUSCLES :: "string list" where
  "ALL_MUSCLES =
     [''chest'', ''shoulders'', ''biceps'', ''triceps'', ''forearms'',
      ''lats'', ''back'', ''lower back'', ''traps'',
      ''abdominals'', ''abs'', ''obliques'', ''core'',
      ''quadriceps'', ''quads'', ''hamstrings'', ''glutes'', ''calves'', ''adductors'',
      ''abductors'', ''legs'']"

definition MUSCLE_TO_BODYPART :: "(string \<times> string) list" where
  "MUSCLE_TO_BODYPART =
     [(''chest'', ''Chest''),
      (''shoulders'', ''Shoulders''),
      (''biceps'', ''Upper Arms''),
      (''triceps'', ''Upper Arms''),
      (''forearms'', ''Lower Arms''),
      (''lats'', ''Back''),
      (''back'', ''Back''),
      (''lower back'', ''Back''),
      (''traps'', ''Back''),
      (''abdominals'', ''Waist''),
      (''abs'', ''Waist''),
      (''obliques'', ''Waist''),
      (''core'', ''Waist''),
      (''quadriceps'', ''Upper Legs''),
      (''quads'', ''Upper Legs''),
      (''hamstrings'', ''Upper Legs''),
      (''glutes'', ''Upper Legs''),
      (''calves'', ''Lower Legs''),
      (''adductors'', ''Upper Legs''),
      (''abductors'', ''Upper Legs''),
      (''legs'', ''Upper Legs'')]"

definition EQUIPMENT_TYPES :: "string list" where
  "EQUIPMENT_TYPES =
     [''dumbbell'', ''barbell'', ''body weight'', ''cable'', ''machine'', ''kettlebell'',
      ''band'', ''medicine ball'', ''exercise ball'']"

section \<open>fetch_exercises: the media URLs\<close>

text \<open>
  The loop that follows the download: a non-empty \<open>imageUrl\<close> or \<open>videoUrl\<close> that
  does not start with \<open>http\<close> gets the CDN base and a slash in front. An absent key
  and an empty string are both false for \<open>if ex.get(key)\<close>.
\<close>

definition enrich :: "exercise \<Rightarrow> exercise" where
  "enrich ex =
     (let ex = (case imageUrl ex of
                  None \<Rightarrow> ex
                | Some img_url \<Rightarrow>
                    if img_url \<noteq> [] \<and> \<not> startswith img_url ''http''
                    then ex\<lparr>imageUrl := Some (EXERCISE_IMAGE_CDN @ ''/'' @ img_url)\<rparr>
                    else ex);
          ex = (case videoUrl ex of
                  None \<Rightarrow> ex
                | Some vid_url \<Rightarrow>
                    if vid_url \<noteq> [] \<and> \<not> startswith vid_url ''http''
                    then ex\<lparr>videoUrl := Some (EXERCISE_VIDEO_CDN @ ''/'' @ vid_url)\<rparr>
                    else ex)
      in ex)"

text \<open>
  The decoded body of the catalog's answer: an object (with or without a \<open>data\<close>
  key), an array, or anything else.
\<close>

datatype response_data =
  DataDict "exercise list option"
| DataList "exercise list"
| DataOther

datatype http_exception = HTTPException nat string

text \<open>
  \<open>fetch_exercises\<close> with the cache passed in and out. The download is the argument
  \<open>response\<close>: \<open>Inl\<close> is a failed request with its message.
\<close>

definition fetch_exercises ::
  "exercise list option \<Rightarrow> string + response_data \<Rightarrow>
   (http_exception + exercise list) \<times> exercise list option" where
  "fetch_exercises exercises_cache response =
     (case exercises_cache of
        Some cached \<Rightarrow> (Inr cached, exercises_cache)
      | None \<Rightarrow>
          (case response of
             Inl e \<Rightarrow>
               (Inl (HTTPException 500 (''Failed to fetch exercises: '' @ e)), exercises_cache)
           | Inr data \<Rightarrow>
               (let fetched = (case data of
                                 DataDict (Some xs) \<Rightarrow> xs
                               | DataDict None \<Rightarrow> []
                               | DataList xs \<Rightarrow> xs
                               | DataOther \<Rightarrow> []);
                    fetched = map enrich fetched
                in (Inr fetched, Some fetched))))"

section \<open>parse_user_query\<close>

definition extract_muscles :: "string \<Rightarrow> string list" where
  "extract_muscles query_lower =
     (let muscles = filter (\<lambda>muscle. contains query_lower muscle) ALL_MUSCLES;
          muscles = (if contains query_lower ''arms'' then
                       (let muscles = (if ''biceps'' \<notin> set muscles
                                       then muscles @ [''biceps''] else muscles);
                            muscles = (if ''triceps'' \<notin> set muscles
                                       then muscles @ [''triceps''] else muscles)
                        in muscles)
                     else muscles);
          muscles = (if contains query_lower ''upper body''
                     then muscles @ [''chest'', ''shoulders'', ''biceps'', ''triceps'', ''back'']
                     else muscles);
          muscles = (if contains query_lower ''lower body''
                     then muscles @ [''quadriceps'', ''hamstrings'', ''glutes'', ''calves'']
                     else muscles);
          muscles = (if contains query_lower ''full body'' \<or> contains query_lower ''total body''
                     then muscles @ [''chest'', ''quadriceps'', ''back'', ''shoulders'', ''abs'']
                     else muscles)
      in list_set muscles)"

definition map_body_parts :: "string list \<Rightarrow> string list" where
  "map_body_parts ms =
     (if ms \<noteq> []
      then list_set (map (\<lambda>m. dict_get MUSCLE_TO_BODYPART m ''Chest'') ms)
      else [])"

definition resolve_difficulty :: "string \<Rightarrow> string option \<Rightarrow> string option" where
  "resolve_difficulty query_lower difficulty' =
     (let parsed_difficulty = difficulty' in
      if \<not> truthy parsed_difficulty then
        (if list_ex (\<lambda>word. contains query_lower word)
              [''beginner'', ''easy'', ''new'', ''starting'']
         then Some ''beginner''
         else if list_ex (\<lambda>word. contains query_lower word) [''intermediate'', ''moderate'']
         then Some ''intermediate''
         else if list_ex (\<lambda>word. contains query_lower word)
              [''advanced'', ''expert'', ''hard'', ''intense'']
         then Some ''expert''
         else parsed_difficulty)
      else parsed_difficulty)"

definition resolve_equipment :: "string \<Rightarrow> string list option \<Rightarrow> string list" where
  "resolve_equipment query_lower equipment' =
     (let parsed_equipment = (case equipment' of None \<Rightarrow> [] | Some eqs \<Rightarrow> eqs);
          parsed_equipment =
            (if parsed_equipment = [] then
               (let parsed_equipment =
                      parsed_equipment @ filter (\<lambda>eq. contains query_lower eq) EQUIPMENT_TYPES;
                    parsed_equipment =
                      (if contains query_lower ''bodyweight'' \<or>
                          contains query_lower ''no equipment'' \<or>
                          contains query_lower ''home''
                       then parsed_equipment @ [''body weight''] else parsed_equipment);
                    parsed_equipment =
                      (if contains query_lower ''dumbbells'' \<and>
                          ''dumbbell'' \<notin> set parsed_equipment
                       then parsed_equipment @ [''dumbbell''] else parsed_equipment);
                    parsed_equipment =
                      (if contains query_lower ''resistance band'' \<and>
                          ''band'' \<notin> set parsed_equipment
                       then parsed_equipment @ [''band''] else parsed_equipment)
                in parsed_equipment)
             else parsed_equipment)
      in list_set parsed_equipment)"

definition parse_user_query ::
  "string \<Rightarrow> string option \<Rightarrow> string list option \<Rightarrow> params" where
  "parse_user_query query difficulty' equipment' =
     (let query_lower = lower query;
          muscles = extract_muscles query_lower;
          body_parts = map_body_parts muscles;
          parsed_difficulty = resolve_difficulty query_lower difficulty';
          parsed_equipment = resolve_equipment query_lower equipment'
      in \<lparr>muscles = muscles, body_parts = body_parts,
          difficulty = parsed_difficulty, equipment = parsed_equipment\<rparr>)"

section \<open>generate_workout_plan: reading the model's answer\<close>

text \<open>
  The part of \<open>generate_workout_plan\<close> that follows the call of the language model:
  \<open>content\<close> is the text of the answer, \<open>loads\<close> is \<open>json.loads\<close> (\<open>Inl\<close> is a
  \<open>JSONDecodeError\<close> with its message).
\<close>

definition fence :: string where
  "fence = [CHR 0x60, CHR 0x60, CHR 0x60]"

text \<open>
  The lazy group \<open>([\s\S]*?)\<close> followed by the closing fence: the shortest text after
  which the fence stands.
\<close>

fun lazy_until_fence :: "string \<Rightarrow> string option" where
  "lazy_until_fence [] = None"
| "lazy_until_fence (c # cs) =
     (if startswith (c # cs) fence then Some []
      else map_option ((#) c) (lazy_until_fence cs))"

fun first_some :: "'a option list \<Rightarrow> 'a option" where
  "first_some [] = None"
| "first_some (None # xs) = first_some xs"
| "first_some (Some x # xs) = Some x"

text \<open>
  The greedy \<open>\s*\<close> before the group: the longest run of whitespace first, then each
  shorter one.
\<close>

definition after_spaces :: "string \<Rightarrow> string option" where
  "after_spaces r =
     (let n = length (takeWhile is_space r)
      in first_some (map (\<lambda>k. lazy_until_fence (drop k r)) (rev [0..<Suc n])))"

text \<open>The optional \<open>(?:json)?\<close>: with the tag first, then without it.\<close>

definition after_open :: "string \<Rightarrow> string option" where
  "after_open r =
     (if startswith r ''json'' then
        (case after_spaces (drop 4 r) of
           Some g \<Rightarrow> Some g
         | None \<Rightarrow> after_spaces r)
      else after_spaces r)"

definition match_at :: "string \<Rightarrow> string option" where
  "match_at s = (if startswith s fence then after_open (drop 3 s) else None)"

text \<open>
  \<open>re.search\<close> of the fence pattern: the match at the leftmost position that has
  one; the result is the match's group 1.
\<close>

fun re_search_fence :: "string \<Rightarrow> string option" where
  "re_search_fence [] = None"
| "re_search_fence (c # cs) =
     (case match_at (c # cs) of
        Some g \<Rightarrow> Some g
      | None \<Rightarrow> re_search_fence cs)"

definition extract_json_str :: "string \<Rightarrow> string" where
  "extract_json_str content =
     (let json_str = content in
      if contains content fence then
        (case re_search_fence content of
           Some g \<Rightarrow> strip g
         | None \<Rightarrow> json_str)
      else json_str)"

definition parse_plan_response ::
  "(string \<Rightarrow> string + 'plan) \<Rightarrow> string \<Rightarrow> http_exception + 'plan" where
  "parse_plan_response loads content =
     (case loads (extract_json_str content) of
        Inr plan \<Rightarrow> Inr plan
      | Inl e \<Rightarrow> Inl (HTTPException 500 (''Failed to parse AI response: '' @ e)))"

section \<open>generate_workout: merging the plan with the catalog\<close>

text \<open>
  An item of the plan's \<open>exercises\<close> list, typed as the class \<open>ExercisePlan\<close>
  declares it. The keys \<open>id\<close>, \<open>sets\<close>, \<open>reps\<close>, \<open>rest_seconds\<close> and
  \<open>trainer_notes\<close> are read with \<open>get\<close>, so each may be absent; the field of the
  key \<open>id\<close> is \<open>plan_id\<close>, and so on.
\<close>

record ExercisePlan =
  plan_id :: "string option"
  plan_sets :: "int option"
  plan_reps :: "string option"
  plan_rest_seconds :: "int option"
  plan_trainer_notes :: "string option"

text \<open>
  The plan, typed as the class \<open>WorkoutPlan\<close> declares it; every key may be absent.
  The fields of the keys \<open>difficulty\<close> and \<open>exercises\<close> are \<open>plan_difficulty\<close> and
  \<open>plan_exercises\<close>.
\<close>

record WorkoutPlan =
  summary :: "string option"
  workout_focus :: "string option"
  estimated_time :: "string option"
  plan_difficulty :: "string option"
  plan_exercises :: "ExercisePlan list option"
  warmup_recommendation :: "string option"
  cooldown_recommendation :: "string option"

text \<open>
  An entry of the answer's \<open>exercises\<close>: the catalog record with the keys
  \<open>sets\<close>, \<open>reps\<close>, \<open>restSeconds\<close>, \<open>trainerNotes\<close>, \<open>id\<close>, \<open>primaryMuscles\<close>,
  \<open>equipment\<close>, \<open>level\<close> and \<open>youtubeSearchUrl\<close> added. The fields of the keys
  \<open>id\<close> and \<open>equipment\<close> are \<open>id'\<close> and \<open>equipment'\<close>.
\<close>

record full_exercise = exercise +
  sets :: int
  reps :: string
  restSeconds :: int
  trainerNotes :: string
  id' :: "string option"
  primaryMuscles :: "string list"
  equipment' :: string
  level :: string
  youtubeSearchUrl :: string

text \<open>
  \<open>urllib.parse.quote\<close>: letters, digits and \<open>_.-~/\<close> stay, every other character
  becomes \<open>%\<close> and its code as two hexadecimal digits.
\<close>

definition always_safe :: string where
  "always_safe = ascii_uppercase @ ascii_lowercase @ ''0123456789'' @ ''_.-~'' @ ''/''"

definition hex_digit :: "nat \<Rightarrow> char" where
  "hex_digit n = ''0123456789ABCDEF'' ! (n mod 16)"

definition quote_char :: "char \<Rightarrow> string" where
  "quote_char c =
     (if c \<in> set always_safe then [c]
      else [CHR ''%'', hex_digit (of_char c div 16), hex_digit (of_char c)])"

definition quote :: "string \<Rightarrow> string" where
  "quote s = concat (map quote_char s)"

text \<open>
  \<open>{ex.get("exerciseId"): ex for ex in all_exercises}\<close>: a later record replaces an
  earlier one with the same id; a record without the key is stored under \<open>None\<close>.
\<close>

definition exercise_map :: "exercise list \<Rightarrow> (string option \<rightharpoonup> exercise)" where
  "exercise_map all_exercises =
     foldl (\<lambda>m ex. m(exerciseId ex \<mapsto> ex)) Map.empty all_exercises"

text \<open>The body of the loop for an item whose id is in the map.\<close>

definition merge_plan :: "exercise \<Rightarrow> ExercisePlan \<Rightarrow> full_exercise" where
  "merge_plan ex plan_ex =
     (let exercise_name = (case name ex of None \<Rightarrow> ''exercise'' | Some n \<Rightarrow> n);
          youtube_query = quote (exercise_name @ '' exercise tutorial'')
      in exercise.extend ex
           \<lparr>sets = (case plan_sets plan_ex of None \<Rightarrow> 3 | Some v \<Rightarrow> v),
            reps = (case plan_reps plan_ex of None \<Rightarrow> ''10-12'' | Some v \<Rightarrow> v),
            restSeconds = (case plan_rest_seconds plan_ex of None \<Rightarrow> 60 | Some v \<Rightarrow> v),
            trainerNotes = (case plan_trainer_notes plan_ex of None \<Rightarrow> '''' | Some v \<Rightarrow> v),
            id' = exerciseId ex,
            primaryMuscles = get_list (targetMuscles ex),
            equipment' = join '', '' (get_list (equipments ex)),
            level = ''intermediate'',
            youtubeSearchUrl = ''https://www.youtube.com/results?search_query='' @ youtube_query\<rparr>)"

fun reconcile_items ::
  "(string option \<rightharpoonup> exercise) \<Rightarrow> ExercisePlan list \<Rightarrow> full_exercise list" where
  "reconcile_items m [] = []"
| "reconcile_items m (plan_ex # rest) =
     (let ex_id = plan_id plan_ex in
      if truthy ex_id then
        (case m ex_id of
           Some ex \<Rightarrow> merge_plan ex plan_ex # reconcile_items m rest
         | None \<Rightarrow> reconcile_items m rest)
      else reconcile_items m rest)"

definition reconcile :: "WorkoutPlan \<Rightarrow> exercise list \<Rightarrow> full_exercise list" where
  "reconcile plan all_exercises =
     reconcile_items (exercise_map all_exercises) (get_list (plan_exercises plan))"

section \<open>Sample data\<close>

definition sample_exercise ::
  "string \<Rightarrow> string \<Rightarrow> string list \<Rightarrow> string list \<Rightarrow> exercise" where
  "sample_exercise i n bps eqs =
     \<lparr>exerciseId = Some i, name = Some n, bodyParts = Some bps, targetMuscles = None,
      secondaryMuscles = None, equipments = Some eqs, exerciseType = None,
      imageUrl = None, videoUrl = None\<rparr>"

definition sample_catalog :: "exercise list" where
  "sample_catalog =
     [sample_exercise ''e1'' ''push up'' [''CHEST''] [''BODY WEIGHT''],
      sample_exercise ''e2'' ''barbell squat'' [''UPPER LEGS''] [''BARBELL''],
      sample_exercise ''e3'' ''dumbbell curl'' [''UPPER ARMS''] [''DUMBBELL''],
      sample_exercise ''e4'' ''bench press'' [''CHEST''] [''BARBELL''],
      sample_exercise ''e5'' ''bent over row'' [''BACK''] [''BARBELL'']]"

definition sample_params :: "string list \<Rightarrow> string list \<Rightarrow> params" where
  "sample_params bps eqs =
     \<lparr>muscles = [], body_parts = bps, difficulty = None, equipment = eqs\<rparr>"

definition sample_item ::
  "string \<Rightarrow> int option \<Rightarrow> string option \<Rightarrow> int option \<Rightarrow> string option
   \<Rightarrow> ExercisePlan" where
  "sample_item i s r t n =
     \<lparr>plan_id = Some i, plan_sets = s, plan_reps = r, plan_rest_seconds = t,
      plan_trainer_notes = n\<rparr>"

text \<open>A plan of three items; the id of the second is not in the sample catalog.\<close>

definition sample_plan :: WorkoutPlan where
  "sample_plan =
     \<lparr>summary = Some ''Chest day'', workout_focus = Some ''Upper Body Push'',
      estimated_time = Some ''30 minutes'', plan_difficulty = Some ''beginner'',
      plan_exercises = Some
        [sample_item ''e1'' None None None None,
         sample_item ''zz'' (Some 3) (Some ''10'') (Some 60) (Some ''unknown''),
         sample_item ''e4'' (Some 5) (Some ''5'') (Some 120) (Some ''brace'')],
      warmup_recommendation = None, cooldown_recommendation = None\<rparr>"

text \<open>
  The answers of C7. \<open>fenced tag w1 t w2\<close> is the text \<open>t\<close> in a fence: three
  backquotes, the tag, the blanks \<open>w1\<close> (usually a line break), \<open>t\<close>, the blanks
  \<open>w2\<close>, three backquotes.
\<close>

definition fenced :: "string \<Rightarrow> string \<Rightarrow> string \<Rightarrow> string \<Rightarrow> string" where
  "fenced tag w1 t w2 = fence @ tag @ w1 @ t @ w2 @ fence"

text \<open>
  The shape of the JSON text of a plan, which is an object: its first character that is
  not a blank is an opening brace, and its last one is a closing brace.
\<close>

definition plan_text :: "string \<Rightarrow> bool" where
  "plan_text t =
     ((case dropWhile is_space t of [] \<Rightarrow> False | c # _ \<Rightarrow> c = CHR ''{'') \<and>
      (case dropWhile is_space (rev t) of [] \<Rightarrow> False | c # _ \<Rightarrow> c = CHR ''}''))"

text \<open>
  A decoder to try the properties on: it accepts the empty object, with blanks around
  it, and nothing else.
\<close>

definition sample_loads :: "string \<Rightarrow> string + string list" where
  "sample_loads s = (if strip s = ''{}'' then Inr [] else Inl ''Expecting value'')"

section \<open>Properties of the exercise filter\<close>

lemmas sample_defs =
  sample_exercise_def sample_catalog_def sample_params_def

lemmas case_defs =
  lower_def upper_def lower_char_def upper_char_def ascii_uppercase_def ascii_lowercase_def

lemmas filter_defs =
  filter_exercises_def body_part_step_def equipment_step_def equipment_filtered_def
  matches_body_part_def matches_equipment_def get_list_def

text \<open>
  C1. Whenever fewer than 3 candidates are left after the body-part and the equipment
  steps, the filter returns the first 30 records of the original catalog, in the
  catalog's order.
\<close>

theorem filter_sparse_fallback:
  "length (equipment_step p (body_part_step p exercises)) < 3 \<Longrightarrow>
   filter_exercises exercises p = take 30 exercises"
  by (simp add: filter_exercises_def Let_def)

text \<open>
  On the sample catalog, the body part \<open>Chest\<close> with the equipment \<open>dumbbell\<close>
  leaves two candidates, and the filter returns the whole catalog.
\<close>

theorem filter_sparse_fallback_witness:
  "length (equipment_step (sample_params [''Chest''] [''dumbbell''])
             (body_part_step (sample_params [''Chest''] [''dumbbell'']) sample_catalog)) < 3
   \<and> filter_exercises sample_catalog (sample_params [''Chest''] [''dumbbell''])
       = sample_catalog"
proof -
  have small:
    "length (equipment_step (sample_params [''Chest''] [''dumbbell''])
               (body_part_step (sample_params [''Chest''] [''dumbbell'']) sample_catalog)) < 3"
    by (simp add: filter_defs sample_defs case_defs)
  have "take 30 sample_catalog = sample_catalog"
    by (simp add: sample_catalog_def)
  with filter_sparse_fallback [OF small] small show ?thesis
    by simp
qed

text \<open>
  C2. With a non-empty equipment list, the equipment step replaces the candidates by
  those matching one of the listed equipments (letter case ignored) when at least 3
  match, and keeps the candidates as they were otherwise; when none matches, no record
  is removed.
\<close>

theorem equipment_step_threshold:
  "equipment p \<noteq> [] \<Longrightarrow>
   (let sub = filter (\<lambda>ex. \<exists>eq \<in> set (equipment p).
                        \<exists>e \<in> set (get_list (equipments ex)). lower eq = lower e) pre
    in equipment_step p pre = (if 3 \<le> length sub then sub else pre)
       \<and> (sub = [] \<longrightarrow> equipment_step p pre = pre))"
proof -
  have "matches_equipment (equipment p) =
          (\<lambda>ex. \<exists>eq \<in> set (equipment p).
                  \<exists>e \<in> set (get_list (equipments ex)). lower eq = lower e)"
    by (auto simp add: matches_equipment_def list_ex_iff fun_eq_iff)
  moreover assume "equipment p \<noteq> []"
  ultimately show ?thesis
    by (simp add: equipment_step_def equipment_filtered_def Let_def)
qed

text \<open>
  On the sample catalog: no record has a kettlebell, so nothing is removed; three have
  a barbell, so they become the candidates.
\<close>

theorem equipment_step_threshold_witness:
  "equipment (sample_params [] [''kettlebell'']) \<noteq> []
   \<and> equipment_step (sample_params [] [''kettlebell'']) sample_catalog = sample_catalog
   \<and> equipment (sample_params [] [''Barbell'']) \<noteq> []
   \<and> equipment_step (sample_params [] [''Barbell'']) sample_catalog =
       [sample_exercise ''e2'' ''barbell squat'' [''UPPER LEGS''] [''BARBELL''],
        sample_exercise ''e4'' ''bench press'' [''CHEST''] [''BARBELL''],
        sample_exercise ''e5'' ''bent over row'' [''BACK''] [''BARBELL'']]"
proof -
  have k: "equipment (sample_params [] [''kettlebell'']) \<noteq> []"
    and b: "equipment (sample_params [] [''Barbell'']) \<noteq> []"
    by (simp_all add: sample_params_def)
  from equipment_step_threshold [OF k, of sample_catalog]
  have "equipment_step (sample_params [] [''kettlebell'']) sample_catalog = sample_catalog"
    by (simp add: Let_def sample_defs get_list_def case_defs)
  moreover from equipment_step_threshold [OF b, of sample_catalog]
  have "equipment_step (sample_params [] [''Barbell'']) sample_catalog =
       [sample_exercise ''e2'' ''barbell squat'' [''UPPER LEGS''] [''BARBELL''],
        sample_exercise ''e4'' ''bench press'' [''CHEST''] [''BARBELL''],
        sample_exercise ''e5'' ''bent over row'' [''BACK''] [''BARBELL'']]"
    by (simp add: Let_def sample_defs get_list_def case_defs)
  ultimately show ?thesis using k b by simp
qed

text \<open>
  C8. The filter returns the empty list exactly when the catalog is empty: on a
  non-empty catalog, fewer than 3 candidates are replaced by the catalog's first 30
  records.
\<close>

theorem filter_empty_iff:
  "filter_exercises exercises p = [] \<longleftrightarrow> exercises = []"
  by (auto simp add: filter_exercises_def Let_def body_part_step_def equipment_step_def
      equipment_filtered_def)

theorem filter_empty_iff_witness:
  "filter_exercises [] (sample_params [''Chest''] [''dumbbell'']) = []
   \<and> filter_exercises sample_catalog (sample_params [''Waist''] []) \<noteq> []"
proof -
  have "sample_catalog \<noteq> []"
    by (simp add: sample_catalog_def)
  then show ?thesis
    using filter_empty_iff [of "[]" "sample_params [''Chest''] [''dumbbell'']"]
      filter_empty_iff [of sample_catalog "sample_params [''Waist''] []"]
    by simp
qed

section \<open>Properties of the query parser\<close>

text \<open>The tests \<open>startswith\<close> and \<open>in\<close> are the prefix and the substring relations.\<close>

lemma startswith_prefix: "startswith s p \<longleftrightarrow> prefix p s"
  by (induction s p rule: startswith.induct) auto

lemma contains_sublist: "contains s w \<longleftrightarrow> sublist w s"
  by (induction s) (simp_all add: startswith_prefix sublist_Cons_right)

text \<open>
  C5, as the code has it. A non-empty explicit difficulty is returned as it is,
  whatever its text. Without one (none given, or the empty string) the lowered query is
  searched for the three keyword groups in turn, the first group with a keyword in the
  query giving the result; when no group has one, the result is the explicit value
  itself: unset, or the empty string.
\<close>

theorem difficulty_resolution:
  "difficulty (parse_user_query query d e) =
     (if d \<noteq> None \<and> d \<noteq> Some '''' then d
      else if sublist ''beginner'' (lower query) \<or> sublist ''easy'' (lower query) \<or>
              sublist ''new'' (lower query) \<or> sublist ''starting'' (lower query)
      then Some ''beginner''
      else if sublist ''intermediate'' (lower query) \<or> sublist ''moderate'' (lower query)
      then Some ''intermediate''
      else if sublist ''advanced'' (lower query) \<or> sublist ''expert'' (lower query) \<or>
              sublist ''hard'' (lower query) \<or> sublist ''intense'' (lower query)
      then Some ''expert''
      else d)"
  by (cases d) (simp_all add: parse_user_query_def resolve_difficulty_def truthy_def Let_def
      contains_sublist)

text \<open>
  An explicit difficulty that is the empty string is not returned as it is: with the
  query \<open>easy workout\<close> the result is \<open>beginner\<close>.
\<close>

theorem difficulty_empty_string_counterexample:
  "difficulty (parse_user_query ''easy workout'' (Some '''') None) \<noteq> Some ''''"
  by (simp add: parse_user_query_def resolve_difficulty_def truthy_def Let_def case_defs)

theorem difficulty_resolution_witness:
  "difficulty (parse_user_query ''hard legs'' (Some ''banana'') None) = Some ''banana''
   \<and> difficulty (parse_user_query ''An EASY but intense day'' None None) = Some ''beginner''
   \<and> difficulty (parse_user_query ''Moderate, then hard'' (Some '''') None)
       = Some ''intermediate''
   \<and> difficulty (parse_user_query ''Expert arms'' None None) = Some ''expert''
   \<and> difficulty (parse_user_query ''leg day'' None None) = None
   \<and> difficulty (parse_user_query ''leg day'' (Some '''') None) = Some ''''"
proof -
  have l1: "lower ''An EASY but intense day'' = ''an easy but intense day''"
    and l2: "lower ''Moderate, then hard'' = ''moderate, then hard''"
    and l3: "lower ''Expert arms'' = ''expert arms''"
    and l4: "lower ''leg day'' = ''leg day''"
    by (simp_all add: case_defs)
  have a: "difficulty (parse_user_query ''hard legs'' (Some ''banana'') None) = Some ''banana''"
    using difficulty_resolution [of "''hard legs''" "Some ''banana''" None] by simp
  have b: "difficulty (parse_user_query ''An EASY but intense day'' None None)
             = Some ''beginner''"
    using difficulty_resolution [of "''An EASY but intense day''" None None]
    by (simp add: l1 contains_sublist [symmetric])
  have c: "difficulty (parse_user_query ''Moderate, then hard'' (Some '''') None)
             = Some ''intermediate''"
    using difficulty_resolution [of "''Moderate, then hard''" "Some ''''" None]
    by (simp add: l2 contains_sublist [symmetric])
  have d: "difficulty (parse_user_query ''Expert arms'' None None) = Some ''expert''"
    using difficulty_resolution [of "''Expert arms''" None None]
    by (simp add: l3 contains_sublist [symmetric])
  have e: "difficulty (parse_user_query ''leg day'' None None) = None"
    using difficulty_resolution [of "''leg day''" None None]
    by (simp add: l4 contains_sublist [symmetric])
  have f: "difficulty (parse_user_query ''leg day'' (Some '''') None) = Some ''''"
    using difficulty_resolution [of "''leg day''" "Some ''''" None]
    by (simp add: l4 contains_sublist [symmetric])
  from a b c d e f show ?thesis by simp
qed

text \<open>The parts of the parser's answer on the query of C6.\<close>

lemma q_lower:
  "lower ''beginner chest workout with dumbbells'' = ''beginner chest workout with dumbbells''"
  by (simp add: case_defs)

lemma q_muscles:
  "extract_muscles ''beginner chest workout with dumbbells'' = [''chest'']"
  by (simp add: extract_muscles_def ALL_MUSCLES_def list_set_def)

lemma q_body_parts: "map_body_parts [''chest''] = [''Chest'']"
  by (simp add: map_body_parts_def MUSCLE_TO_BODYPART_def list_set_def dict_get_def)

lemma q_difficulty:
  "resolve_difficulty ''beginner chest workout with dumbbells'' None = Some ''beginner''"
  by (simp add: resolve_difficulty_def truthy_def)

lemma q_equipment:
  "resolve_equipment ''beginner chest workout with dumbbells'' None = [''dumbbell'']"
  by (simp add: resolve_equipment_def EQUIPMENT_TYPES_def list_set_def)

text \<open>
  C6. For the query \<open>beginner chest workout with dumbbells\<close> with no explicit
  difficulty and no explicit equipment, the parser answers the difficulty
  \<open>beginner\<close>, muscles that contain \<open>chest\<close>, the body parts \<open>Chest\<close> alone and the
  equipment \<open>dumbbell\<close> alone.
\<close>

theorem parse_beginner_chest_dumbbells:
  "difficulty (parse_user_query ''beginner chest workout with dumbbells'' None None)
     = Some ''beginner''
   \<and> ''chest'' \<in> set (muscles (parse_user_query ''beginner chest workout with dumbbells''
                                 None None))
   \<and> set (body_parts (parse_user_query ''beginner chest workout with dumbbells'' None None))
     = {''Chest''}
   \<and> set (equipment (parse_user_query ''beginner chest workout with dumbbells'' None None))
     = {''dumbbell''}"
  by (simp add: parse_user_query_def q_lower q_muscles q_body_parts q_difficulty q_equipment)

text \<open>The muscles the aliases add are all in \<open>ALL_MUSCLES\<close>.\<close>

lemma alias_muscles:
  "''biceps'' \<in> set ALL_MUSCLES" "''triceps'' \<in> set ALL_MUSCLES"
  "''chest'' \<in> set ALL_MUSCLES" "''shoulders'' \<in> set ALL_MUSCLES"
  "''back'' \<in> set ALL_MUSCLES" "''quadriceps'' \<in> set ALL_MUSCLES"
  "''hamstrings'' \<in> set ALL_MUSCLES" "''glutes'' \<in> set ALL_MUSCLES"
  "''calves'' \<in> set ALL_MUSCLES" "''abs'' \<in> set ALL_MUSCLES"
  by (simp_all add: ALL_MUSCLES_def)

lemma extract_muscles_subset: "set (extract_muscles ql) \<subseteq> set ALL_MUSCLES"
  by (auto simp add: extract_muscles_def Let_def list_set_def alias_muscles split: if_splits)

lemma all_muscles_mapped: "set ALL_MUSCLES \<subseteq> dom (map_of MUSCLE_TO_BODYPART)"
  by (simp add: dom_map_of_conv_image_fst ALL_MUSCLES_def MUSCLE_TO_BODYPART_def)

lemma dict_get_mapped:
  "m \<in> dom (map_of t) \<Longrightarrow> dict_get t m dflt = the (map_of t m)"
  by (auto simp add: dict_get_def)

lemma dict_get_ran:
  "m \<in> dom (map_of t) \<Longrightarrow> dict_get t m dflt \<in> ran (map_of t)"
  by (auto simp add: dict_get_def ran_def)

lemma map_body_parts_empty: "map_body_parts ms = [] \<longleftrightarrow> ms = []"
  by (simp add: map_body_parts_def list_set_def)

text \<open>
  C10. Every parsed muscle is a key of \<open>MUSCLE_TO_BODYPART\<close>, so the default of the
  lookup is never used: the body parts are the same whatever the default. The body parts
  are values of the table, and there is none exactly when there is no muscle.
\<close>

theorem parsed_muscles_mapped:
  "set (muscles (parse_user_query query d e)) \<subseteq> dom (map_of MUSCLE_TO_BODYPART)
   \<and> body_parts (parse_user_query query d e) =
       (if muscles (parse_user_query query d e) = [] then []
        else list_set (map (\<lambda>m. dict_get MUSCLE_TO_BODYPART m dflt)
                        (muscles (parse_user_query query d e))))
   \<and> set (body_parts (parse_user_query query d e)) \<subseteq> ran (map_of MUSCLE_TO_BODYPART)
   \<and> (body_parts (parse_user_query query d e) = []
        \<longleftrightarrow> muscles (parse_user_query query d e) = [])"
proof -
  define ms where "ms = extract_muscles (lower query)"
  have m: "muscles (parse_user_query query d e) = ms"
    and b: "body_parts (parse_user_query query d e) = map_body_parts ms"
    by (simp_all add: parse_user_query_def Let_def ms_def)
  have sub: "set ms \<subseteq> dom (map_of MUSCLE_TO_BODYPART)"
    unfolding ms_def using extract_muscles_subset all_muscles_mapped by blast
  have indep: "map (\<lambda>m. dict_get MUSCLE_TO_BODYPART m ''Chest'') ms =
               map (\<lambda>m. dict_get MUSCLE_TO_BODYPART m dflt) ms"
    using sub by (auto simp add: dict_get_mapped subset_iff)
  have ran: "set (map_body_parts ms) \<subseteq> ran (map_of MUSCLE_TO_BODYPART)"
    using sub by (auto simp add: map_body_parts_def list_set_def dict_get_ran subset_iff)
  have bp: "map_body_parts ms =
              (if ms = [] then []
               else list_set (map (\<lambda>m. dict_get MUSCLE_TO_BODYPART m dflt) ms))"
    by (simp add: map_body_parts_def indep)
  from sub ran bp map_body_parts_empty [of ms] show ?thesis
    unfolding m b by blast
qed

theorem parsed_muscles_mapped_witness:
  "set (muscles (parse_user_query ''Full body, arms and legs'' None None))
     \<subseteq> dom (map_of MUSCLE_TO_BODYPART)
   \<and> body_parts (parse_user_query ''Full body, arms and legs'' None None) =
       (if muscles (parse_user_query ''Full body, arms and legs'' None None) = [] then []
        else list_set (map (\<lambda>m. dict_get MUSCLE_TO_BODYPART m ''Neck'')
                        (muscles (parse_user_query ''Full body, arms and legs'' None None))))
   \<and> set (body_parts (parse_user_query ''Full body, arms and legs'' None None))
       \<subseteq> ran (map_of MUSCLE_TO_BODYPART)
   \<and> (body_parts (parse_user_query ''Full body, arms and legs'' None None) = []
        \<longleftrightarrow> muscles (parse_user_query ''Full body, arms and legs'' None None) = [])"
  by (rule parsed_muscles_mapped)

section \<open>Properties of the merge of the plan with the catalog\<close>

lemma exercise_map_snoc:
  "exercise_map (xs @ [x]) = (exercise_map xs)(exerciseId x \<mapsto> x)"
  by (simp add: exercise_map_def)

lemma exercise_map_dom: "dom (exercise_map all_exercises) = exerciseId ` set all_exercises"
proof (induction all_exercises rule: rev_induct)
  case Nil
  then show ?case by (simp add: exercise_map_def)
next
  case (snoc x xs)
  have "dom (exercise_map (xs @ [x])) = insert (exerciseId x) (dom (exercise_map xs))"
    unfolding exercise_map_snoc by (auto simp add: dom_def)
  with snoc show ?case by simp
qed

lemma exercise_map_key:
  "exercise_map all_exercises k = Some ex \<Longrightarrow> exerciseId ex = k \<and> ex \<in> set all_exercises"
proof (induction all_exercises rule: rev_induct)
  case Nil
  then show ?case by (simp add: exercise_map_def)
next
  case (snoc x xs)
  then show ?case by (auto simp add: exercise_map_snoc split: if_splits)
qed

lemma merge_plan_fields:
  "id' (merge_plan ex item) = exerciseId ex"
  "sets (merge_plan ex item) = (case plan_sets item of None \<Rightarrow> 3 | Some v \<Rightarrow> v)"
  "reps (merge_plan ex item) = (case plan_reps item of None \<Rightarrow> ''10-12'' | Some v \<Rightarrow> v)"
  "restSeconds (merge_plan ex item) =
     (case plan_rest_seconds item of None \<Rightarrow> 60 | Some v \<Rightarrow> v)"
  "trainerNotes (merge_plan ex item) =
     (case plan_trainer_notes item of None \<Rightarrow> '''' | Some v \<Rightarrow> v)"
  "exercise.truncate (merge_plan ex item) = ex"
  by (simp_all add: merge_plan_def Let_def exercise.extend_def exercise.truncate_def)

lemma reconcile_items_filter:
  "reconcile_items m items =
     map (\<lambda>item. merge_plan (the (m (plan_id item))) item)
       (filter (\<lambda>item. truthy (plan_id item) \<and> plan_id item \<in> dom m) items)"
  by (induction items) (auto simp add: Let_def split: option.splits)

lemma reconcile_ids:
  "map id' (reconcile plan all_exercises) =
     filter (\<lambda>i. truthy i \<and> i \<in> exerciseId ` set all_exercises)
       (map plan_id (get_list (plan_exercises plan)))"
proof -
  have "id' (merge_plan (the (exercise_map all_exercises (plan_id item))) item) = plan_id item"
    if "plan_id item \<in> dom (exercise_map all_exercises)" for item
    using that exercise_map_key [of all_exercises "plan_id item"]
    by (auto simp add: merge_plan_fields)
  then show ?thesis
    by (simp add: reconcile_def reconcile_items_filter exercise_map_dom [symmetric]
        filter_map comp_def cong: map_cong)
qed


text \<open>
  C3. The ids of the entries of the answer are, in the plan's order, the ids of the
  plan's items that are non-empty and belong to a record of the catalog: the other
  items are left out without an error. So every entry's id is the id of a catalog
  record, there are at most as many entries as items, and the entries keep the order of
  the plan.
\<close>

theorem reconcile_drops_unknown:
  "map id' (reconcile plan all_exercises) =
     filter (\<lambda>i. truthy i \<and> i \<in> exerciseId ` set all_exercises)
       (map plan_id (get_list (plan_exercises plan)))
   \<and> set (map id' (reconcile plan all_exercises)) \<subseteq> exerciseId ` set all_exercises
   \<and> length (reconcile plan all_exercises) \<le> length (get_list (plan_exercises plan))
   \<and> subseq (map id' (reconcile plan all_exercises))
       (map plan_id (get_list (plan_exercises plan)))"
proof -
  note ids = reconcile_ids [of plan all_exercises]
  have "set (map id' (reconcile plan all_exercises)) \<subseteq> exerciseId ` set all_exercises"
    unfolding ids by auto
  moreover have "length (map id' (reconcile plan all_exercises))
                   \<le> length (map plan_id (get_list (plan_exercises plan)))"
    unfolding ids by (rule length_filter_le)
  then have "length (reconcile plan all_exercises)
               \<le> length (get_list (plan_exercises plan))"
    by simp
  moreover have "subseq (map id' (reconcile plan all_exercises))
                   (map plan_id (get_list (plan_exercises plan)))"
    unfolding ids by (rule subseq_filter_left)
  ultimately show ?thesis using ids by blast
qed

text \<open>
  The sample plan names \<open>e1\<close>, the unknown \<open>zz\<close> and \<open>e4\<close>: the answer has the two
  entries \<open>e1\<close> and \<open>e4\<close>, in that order.
\<close>

theorem reconcile_drops_unknown_witness:
  "map id' (reconcile sample_plan sample_catalog) = [Some ''e1'', Some ''e4'']
   \<and> length (reconcile sample_plan sample_catalog) \<le> 3"
proof -
  have "exerciseId ` set sample_catalog =
          {Some ''e1'', Some ''e2'', Some ''e3'', Some ''e4'', Some ''e5''}"
    by (simp add: sample_catalog_def sample_exercise_def)
  moreover have "map plan_id (get_list (plan_exercises sample_plan)) =
                   [Some ''e1'', Some ''zz'', Some ''e4'']"
    by (simp add: sample_plan_def sample_item_def get_list_def)
  moreover have "length (get_list (plan_exercises sample_plan)) = 3"
    by (simp add: sample_plan_def get_list_def)
  ultimately show ?thesis
    using reconcile_drops_unknown [of sample_plan sample_catalog]
    by (simp add: truthy_def)
qed

text \<open>
  C9, as the code has it. An item of the plan whose id is present, is not the empty
  string and belongs to a catalog record has an entry in the answer: a record of the
  catalog with that id, with the item's \<open>sets\<close>, \<open>reps\<close>, \<open>rest_seconds\<close> and
  \<open>trainer_notes\<close> where the item has them, and 3, \<open>10-12\<close>, 60 and the empty string
  where it has not.
\<close>

theorem reconcile_defaults:
  "item \<in> set (get_list (plan_exercises plan)) \<Longrightarrow>
   truthy (plan_id item) \<Longrightarrow>
   plan_id item \<in> exerciseId ` set all_exercises \<Longrightarrow>
   \<exists>r \<in> set (reconcile plan all_exercises).
     id' r = plan_id item
     \<and> exercise.truncate r \<in> set all_exercises
     \<and> sets r = (case plan_sets item of None \<Rightarrow> 3 | Some v \<Rightarrow> v)
     \<and> reps r = (case plan_reps item of None \<Rightarrow> ''10-12'' | Some v \<Rightarrow> v)
     \<and> restSeconds r = (case plan_rest_seconds item of None \<Rightarrow> 60 | Some v \<Rightarrow> v)
     \<and> trainerNotes r = (case plan_trainer_notes item of None \<Rightarrow> [] | Some v \<Rightarrow> v)"
proof -
  assume item: "item \<in> set (get_list (plan_exercises plan))"
    and id: "truthy (plan_id item)"
    and found: "plan_id item \<in> exerciseId ` set all_exercises"
  from found obtain ex where ex: "exercise_map all_exercises (plan_id item) = Some ex"
    unfolding exercise_map_dom [symmetric] by blast
  let ?r = "merge_plan ex item"
  from item id found ex have "?r \<in> set (reconcile plan all_exercises)"
    by (force simp add: reconcile_def reconcile_items_filter exercise_map_dom)
  moreover from exercise_map_key [OF ex]
  have "id' ?r = plan_id item" and "exercise.truncate ?r \<in> set all_exercises"
    by (simp_all add: merge_plan_fields)
  ultimately show ?thesis
    by (auto simp add: merge_plan_fields intro!: bexI [of _ ?r])
qed

text \<open>
  An item whose id is the empty string is left out although a record of the catalog
  has that id: the test \<open>if ex_id and ex_id in exercise_map\<close> is false for an empty id.
\<close>

theorem reconcile_empty_id_counterexample:
  "plan_id (sample_item [] None None None None)
     \<in> exerciseId ` set [sample_exercise [] ''plank'' [''WAIST''] [''BODY WEIGHT'']]
   \<and> reconcile (sample_plan\<lparr>plan_exercises := Some [sample_item [] None None None None]\<rparr>)
       [sample_exercise [] ''plank'' [''WAIST''] [''BODY WEIGHT'']] = []"
  by (simp add: reconcile_def get_list_def sample_item_def sample_exercise_def truthy_def)

text \<open>An item with the id \<open>e1\<close> and the reps \<open>8\<close> only: the rest is filled in.\<close>

theorem reconcile_defaults_witness:
  "sample_item ''e1'' None (Some ''8'') None None
     \<in> set (get_list (plan_exercises
                (sample_plan\<lparr>plan_exercises :=
                    Some [sample_item ''e1'' None (Some ''8'') None None]\<rparr>)))
   \<and> truthy (plan_id (sample_item ''e1'' None (Some ''8'') None None))
   \<and> plan_id (sample_item ''e1'' None (Some ''8'') None None)
       \<in> exerciseId ` set sample_catalog
   \<and> (\<exists>r \<in> set (reconcile
                  (sample_plan\<lparr>plan_exercises :=
                      Some [sample_item ''e1'' None (Some ''8'') None None]\<rparr>)
                  sample_catalog).
         id' r = Some ''e1'' \<and> sets r = 3 \<and> reps r = ''8'' \<and> restSeconds r = 60
         \<and> trainerNotes r = [])"
proof -
  let ?item = "sample_item ''e1'' None (Some ''8'') None None"
  let ?plan = "sample_plan\<lparr>plan_exercises := Some [?item]\<rparr>"
  have a: "?item \<in> set (get_list (plan_exercises ?plan))"
    by (simp add: get_list_def)
  have b: "truthy (plan_id ?item)"
    by (simp add: sample_item_def truthy_def)
  have c: "plan_id ?item \<in> exerciseId ` set sample_catalog"
    by (simp add: sample_item_def sample_catalog_def sample_exercise_def)
  from reconcile_defaults [OF a b c] obtain r
    where r: "r \<in> set (reconcile ?plan sample_catalog)"
      and i: "id' r = plan_id ?item"
      and s: "sets r = (case plan_sets ?item of None \<Rightarrow> 3 | Some v \<Rightarrow> v)"
      and p: "reps r = (case plan_reps ?item of None \<Rightarrow> ''10-12'' | Some v \<Rightarrow> v)"
      and t: "restSeconds r = (case plan_rest_seconds ?item of None \<Rightarrow> 60 | Some v \<Rightarrow> v)"
      and n: "trainerNotes r = (case plan_trainer_notes ?item of None \<Rightarrow> [] | Some v \<Rightarrow> v)"
    by blast
  from i s p t n
  have "id' r = Some ''e1'' \<and> sets r = 3 \<and> reps r = ''8'' \<and> restSeconds r = 60
        \<and> trainerNotes r = []"
    by (simp add: sample_item_def)
  with r a b c show ?thesis by blast
qed

section \<open>Properties of the reading of the model's answer\<close>

lemma backquote_not_space [simp]: "\<not> is_space (CHR 0x60)"
  by (simp add: is_space_def whitespace_def)

lemma brace_not_space [simp]: "\<not> is_space CHR ''{''" "\<not> is_space CHR ''}''"
  by (simp_all add: is_space_def whitespace_def)

lemma set_fence [simp]: "set fence = {CHR 0x60}"
  by (simp add: fence_def)

lemma startswith_append [simp]: "startswith (p @ x) p"
  by (simp add: startswith_prefix)

lemma contains_fenced: "contains (fenced tag w1 t w2) fence"
  by (simp add: fenced_def contains_sublist fence_def)

text \<open>A fence in \<open>t @ w\<close>, where \<open>w\<close> is blank, is a fence in \<open>t\<close>.\<close>

lemma contains_append_blank:
  assumes "list_all is_space w" and "contains (t @ w) fence"
  shows "contains t fence"
proof -
  from assms(2) have "sublist fence (t @ w)"
    by (simp add: contains_sublist)
  then consider "sublist fence t" | "sublist fence w"
    | xs1 xs2 where "fence = xs1 @ xs2" "suffix xs1 t" "prefix xs2 w"
    by (auto simp add: sublist_append)
  then show ?thesis
  proof cases
    case 1
    then show ?thesis by (simp add: contains_sublist)
  next
    case 2
    then have "set fence \<subseteq> set w"
      by (rule set_mono_sublist)
    with assms(1) have "is_space (CHR 0x60)"
      by (auto simp add: list_all_iff)
    then show ?thesis by simp
  next
    case 3
    show ?thesis
    proof (cases "xs2 = []")
      case True
      with 3 have "suffix fence t" by simp
      then show ?thesis
        by (simp add: contains_sublist suffix_imp_sublist)
    next
      case False
      then have "hd xs2 \<in> set xs2" by simp
      moreover have "set xs2 \<subseteq> set fence"
        unfolding 3(1) by (simp del: set_fence)
      moreover from 3(3) have "set xs2 \<subseteq> set w"
        by (rule set_mono_prefix)
      ultimately have "hd xs2 = CHR 0x60" and "hd xs2 \<in> set w" by auto
      then have "CHR 0x60 \<in> set w" by simp
      with assms(1) have "is_space (CHR 0x60)"
        by (auto simp add: list_all_iff)
      then show ?thesis by simp
    qed
  qed
qed

lemma contains_suffix:
  "contains u fence \<Longrightarrow> suffix u t \<Longrightarrow> contains t fence"
  unfolding contains_sublist
  by (meson sublist_order.order.trans suffix_imp_sublist)

lemma lazy_until_fence_end:
  "\<not> contains u fence \<Longrightarrow> u = [] \<or> last u \<noteq> CHR 0x60 \<Longrightarrow>
   lazy_until_fence (u @ fence) = Some u"
proof (induction u)
  case Nil
  then show ?case by (simp add: fence_def)
next
  case (Cons c cs)
  from Cons.prems have no: "\<not> startswith (c # cs) fence" and rest: "\<not> contains cs fence"
    by simp_all
  from Cons.prems(2) have l: "last (c # cs) \<noteq> CHR 0x60" by simp
  have "\<not> startswith ((c # cs) @ fence) fence"
  proof (cases cs)
    case Nil
    with l show ?thesis by (simp add: fence_def)
  next
    case (Cons d ds)
    note cs = this
    show ?thesis
    proof (cases ds)
      case Nil
      with cs l show ?thesis by (simp add: fence_def)
    next
      case (Cons e es)
      with cs no show ?thesis by (simp add: fence_def)
    qed
  qed
  moreover from l have "cs = [] \<or> last cs \<noteq> CHR 0x60"
    by (cases cs) simp_all
  ultimately show ?case
    using Cons.IH [OF rest] by simp
qed


lemma after_spaces_greedy:
  "lazy_until_fence (dropWhile is_space r) = Some g \<Longrightarrow> after_spaces r = Some g"
  by (simp add: after_spaces_def Let_def dropWhile_eq_drop)

lemma dropWhile_blank_prefix:
  "list_all is_space w \<Longrightarrow> dropWhile is_space (w @ x) = dropWhile is_space x"
  by (simp add: dropWhile_append2 list_all_iff)

lemma dropWhile_before_fence:
  "dropWhile is_space (x @ fence) = dropWhile is_space x @ fence"
  by (simp add: dropWhile_append fence_def)

lemma plan_text_first:
  assumes "plan_text t"
  obtains c r where "t = c # r" and "is_space c \<or> c = CHR ''{''"
proof (cases t)
  case Nil
  with assms show ?thesis by (simp add: plan_text_def)
next
  case (Cons c r)
  with assms have "is_space c \<or> c = CHR ''{''"
    by (auto simp add: plan_text_def split: if_splits)
  with Cons show ?thesis by (rule that)
qed

lemma plan_text_last:
  assumes "plan_text t"
  shows "t \<noteq> []" and "last t \<noteq> CHR 0x60"
proof -
  from assms show ne: "t \<noteq> []"
    by (auto simp add: plan_text_def)
  then obtain c r where rev: "rev t = c # r"
    by (cases "rev t") simp_all
  with assms have "is_space c \<or> c = CHR ''}''"
    by (auto simp add: plan_text_def split: if_splits)
  moreover from rev ne have "last t = c"
    by (simp add: last_rev [symmetric] del: last_rev)
  ultimately show "last t \<noteq> CHR 0x60" by auto
qed

lemma plan_text_not_blank:
  assumes "plan_text t"
  shows "\<not> list_all is_space t"
proof
  assume "list_all is_space t"
  then have "dropWhile is_space t = []"
    by (simp add: list_all_iff)
  with assms show False by (simp add: plan_text_def)
qed

lemma strip_blank_suffix:
  assumes "list_all is_space w"
  shows "strip (t @ w) = strip t"
proof (cases "list_all is_space t")
  case True
  with assms have a: "dropWhile is_space (t @ w) = []" and b: "dropWhile is_space t = []"
    by (simp_all add: list_all_iff)
  show ?thesis
    by (simp only: strip_def a b)
next
  case False
  then have "dropWhile is_space (t @ w) = dropWhile is_space t @ w"
    by (auto simp add: dropWhile_append list_all_iff)
  moreover from assms have "list_all is_space (rev w)"
    by (simp add: list_all_iff)
  then have "dropWhile is_space (rev w @ rev (dropWhile is_space t)) =
             dropWhile is_space (rev (dropWhile is_space t))"
    by (rule dropWhile_blank_prefix)
  ultimately show ?thesis
    by (simp add: strip_def)
qed

lemma strip_dropWhile: "strip (dropWhile is_space x) = strip x"
  by (simp add: strip_def)


lemma suffix_last: "suffix xs ys \<Longrightarrow> xs \<noteq> [] \<Longrightarrow> last xs = last ys"
  by (auto simp add: suffix_def)

lemma group_of_fenced:
  assumes "plan_text t" and "\<not> contains t fence"
    and "list_all is_space w1" and "list_all is_space w2"
  shows "after_spaces (w1 @ t @ w2 @ fence) = Some (dropWhile is_space (t @ w2))"
proof -
  let ?u = "dropWhile is_space (t @ w2)"
  have suf: "suffix ?u (t @ w2)"
    by (rule suffix_dropWhile)
  from assms(2,4) have "\<not> contains (t @ w2) fence"
    using contains_append_blank by blast
  with suf have no: "\<not> contains ?u fence"
    using contains_suffix by blast
  from plan_text_not_blank [OF assms(1)] have ne: "?u \<noteq> []"
    by (auto simp add: list_all_iff)
  have "last (t @ w2) \<noteq> CHR 0x60"
  proof (cases "w2 = []")
    case True
    with plan_text_last [OF assms(1)] show ?thesis by simp
  next
    case False
    then have "last (t @ w2) \<in> set w2" by simp
    with assms(4) have "is_space (last (t @ w2))"
      by (simp add: list_all_iff)
    then show ?thesis by auto
  qed
  with suffix_last [OF suf ne] have "last ?u \<noteq> CHR 0x60" by simp
  with no have "lazy_until_fence (?u @ fence) = Some ?u"
    by (simp add: lazy_until_fence_end)
  moreover have "dropWhile is_space (w1 @ t @ w2 @ fence) = ?u @ fence"
    using dropWhile_blank_prefix [OF assms(3), of "t @ w2 @ fence"]
      dropWhile_before_fence [of "t @ w2"]
    by simp
  ultimately show ?thesis
    by (simp add: after_spaces_greedy)
qed

lemma no_json_tag:
  assumes "plan_text t" and "list_all is_space w1"
  shows "\<not> startswith (w1 @ t @ x) ''json''"
proof (cases w1)
  case Nil
  from assms(1) obtain c r where "t = c # r" and "is_space c \<or> c = CHR ''{''"
    by (rule plan_text_first)
  with Nil show ?thesis
    by (auto simp add: is_space_def whitespace_def)
next
  case (Cons c r)
  with assms(2) have "is_space c" by simp
  with Cons show ?thesis
    by (auto simp add: is_space_def whitespace_def)
qed

lemma match_at_fenced:
  "match_at (fenced tag w1 t w2) = after_open (tag @ w1 @ t @ w2 @ fence)"
proof -
  have "drop 3 (fence @ tag @ w1 @ t @ w2 @ fence) = tag @ w1 @ t @ w2 @ fence"
    by (simp add: fence_def)
  then show ?thesis
    by (simp add: match_at_def fenced_def)
qed

lemma re_search_fenced:
  "match_at (fenced tag w1 t w2) = Some g \<Longrightarrow> re_search_fence (fenced tag w1 t w2) = Some g"
  by (cases "fenced tag w1 t w2") (simp_all add: fenced_def fence_def)

lemma extract_fenced:
  assumes "plan_text t" and "\<not> contains t fence"
    and "list_all is_space w1" and "list_all is_space w2"
    and "tag = ''json'' \<or> tag = []"
  shows "extract_json_str (fenced tag w1 t w2) = strip t"
proof -
  let ?u = "dropWhile is_space (t @ w2)"
  note grp = group_of_fenced [OF assms(1-4)]
  have "after_open (tag @ w1 @ t @ w2 @ fence) = Some ?u"
  proof (cases "tag = []")
    case True
    with grp no_json_tag [OF assms(1,3)] show ?thesis
      by (simp add: after_open_def)
  next
    case False
    with assms(5) have "tag = ''json''" by simp
    with grp show ?thesis
      by (simp add: after_open_def)
  qed
  then have "re_search_fence (fenced tag w1 t w2) = Some ?u"
    by (simp add: re_search_fenced match_at_fenced)
  moreover have "strip ?u = strip t"
    using strip_blank_suffix [OF assms(4)] by (simp add: strip_dropWhile)
  ultimately show ?thesis
    by (simp add: extract_json_str_def contains_fenced)
qed

lemma extract_bare: "\<not> contains t fence \<Longrightarrow> extract_json_str t = t"
  by (simp add: extract_json_str_def)

text \<open>
  C7. Let \<open>t\<close> be the JSON text of a plan: it has the shape of an object, holds no
  three backquotes in a row, and \<open>json.loads\<close> decodes it to \<open>plan\<close>. The decoder is
  the parameter \<open>loads\<close>; what is used of it is that a text it decodes gives the same
  value once the blanks around it are stripped, as \<open>json.loads\<close> does. Then the
  answer \<open>t\<close>, the answer \<open>t\<close> in a fence tagged \<open>json\<close> and the answer \<open>t\<close> in
  a fence without a tag are all read as \<open>plan\<close>, whatever blanks separate the fences
  from \<open>t\<close>.
\<close>

theorem plan_response_fence_invariant:
  assumes "plan_text t" and "\<not> contains t fence"
    and "list_all is_space w1" and "list_all is_space w2"
    and "loads t = Inr plan"
    and "\<forall>s p. loads s = Inr p \<longrightarrow> loads (strip s) = Inr p"
  shows "parse_plan_response loads t = Inr plan
         \<and> parse_plan_response loads (fenced ''json'' w1 t w2) = Inr plan
         \<and> parse_plan_response loads (fenced [] w1 t w2) = Inr plan"
proof -
  from assms(5,6) have "loads (strip t) = Inr plan" by blast
  with assms(1-5) show ?thesis
    by (simp add: parse_plan_response_def extract_fenced extract_bare)
qed

text \<open>
  The empty object between two spaces, bare and in fences with line breaks, read with
  the sample decoder.
\<close>

theorem plan_response_fence_invariant_witness:
  "plan_text '' {} ''
   \<and> \<not> contains '' {} '' fence
   \<and> list_all is_space [CHR 0x0A]
   \<and> sample_loads '' {} '' = Inr []
   \<and> parse_plan_response sample_loads '' {} '' = Inr []
   \<and> parse_plan_response sample_loads (fenced ''json'' [CHR 0x0A] '' {} '' [CHR 0x0A]) = Inr []
   \<and> parse_plan_response sample_loads (fenced [] [CHR 0x0A] '' {} '' [CHR 0x0A]) = Inr []"
proof -
  have sp: "is_space CHR '' ''" "is_space (CHR 0x0A)"
    by (simp_all add: is_space_def whitespace_def)
  have a: "plan_text '' {} ''"
    by (simp add: plan_text_def sp)
  have b: "\<not> contains '' {} '' fence"
    by (simp add: fence_def)
  have c: "list_all is_space [CHR 0x0A]"
    by (simp add: sp)
  have d: "sample_loads '' {} '' = Inr []"
    by (simp add: sample_loads_def strip_def sp)
  have "strip ''{}'' = ''{}''"
    by (simp add: strip_def)
  then have e: "\<forall>s p. sample_loads s = Inr p \<longrightarrow> sample_loads (strip s) = Inr p"
    by (auto simp add: sample_loads_def split: if_splits)
  from plan_response_fence_invariant [OF a b c c d e] a b c d show ?thesis
    by simp
qed

section \<open>Properties of the media URLs\<close>

text \<open>What the loop of \<open>fetch_exercises\<close> does to the image URL and to the video URL.\<close>

lemma enrich_imageUrl:
  "imageUrl (enrich ex) =
     (case imageUrl ex of
        None \<Rightarrow> None
      | Some u \<Rightarrow>
          if u \<noteq> [] \<and> \<not> prefix ''http'' u then Some (EXERCISE_IMAGE_CDN @ ''/'' @ u)
          else Some u)"
  by (auto simp add: enrich_def Let_def startswith_prefix split: option.splits)

lemma enrich_videoUrl:
  "videoUrl (enrich ex) =
     (case videoUrl ex of
        None \<Rightarrow> None
      | Some u \<Rightarrow>
          if u \<noteq> [] \<and> \<not> prefix ''http'' u then Some (EXERCISE_VIDEO_CDN @ ''/'' @ u)
          else Some u)"
  by (auto simp add: enrich_def Let_def startswith_prefix split: option.splits)

text \<open>
  C4. The test of the loop is whether the URL starts with \<open>http\<close>, not whether it
  starts with a scheme: the absolute URL \<open>ftp://example.com/pushup.gif\<close> gets the CDN
  base in front, and the relative URL \<open>httpdocs/pushup.mp4\<close> is left as it is.
\<close>

theorem enrich_tests_http_prefix:
  "imageUrl (enrich ((sample_exercise ''e1'' ''push up'' [] [])
                       \<lparr>imageUrl := Some ''ftp://example.com/pushup.gif''\<rparr>))
     = Some ''https://exercisedb.b-cdn.net/exercises-thumbnails/ftp://example.com/pushup.gif''
   \<and> videoUrl (enrich ((sample_exercise ''e1'' ''push up'' [] [])
                         \<lparr>videoUrl := Some ''httpdocs/pushup.mp4''\<rparr>))
     = Some ''httpdocs/pushup.mp4''"
  by (simp add: enrich_imageUrl enrich_videoUrl EXERCISE_IMAGE_CDN_def sample_exercise_def)

end
